theory Spec2Isabelle
  imports Main "HOL-Library.Word" "HOL-Library.Sublist"
begin

section \<open>Strings of the host language\<close>

text \<open>
  A JavaScript string is a finite sequence of 16-bit code units. The handlers of
  \<^verbatim>\<open>src/index.ts\<close> use four string operations: \<^verbatim>\<open>trim\<close>, \<^verbatim>\<open>startsWith\<close>,
  \<^verbatim>\<open>includes\<close> and \<^verbatim>\<open>toLowerCase\<close>. The first three are defined here on code
  units as ECMAScript defines them. \<^verbatim>\<open>toLowerCase\<close> applies the Unicode case
  mapping, a table of the runtime and not of this repository; the handler that
  calls it takes it as a parameter.
\<close>

type_synonym jsstring = "16 word list"

text \<open>An ASCII literal as a JavaScript string.\<close>

definition js :: "string \<Rightarrow> jsstring" where
  "js s = map of_char s"

text \<open>
  The code units that \<^verbatim>\<open>String.prototype.trim\<close> strips: WhiteSpace (TAB, VT, FF,
  ZWNBSP and the Unicode category Zs) and LineTerminator (LF, CR, LS, PS).
\<close>

definition isWhiteSpace :: "16 word \<Rightarrow> bool" where
  "isWhiteSpace c \<longleftrightarrow>
     c = 0x0009 \<or> c = 0x000A \<or> c = 0x000B \<or> c = 0x000C \<or> c = 0x000D \<or>
     c = 0x0020 \<or> c = 0x00A0 \<or> c = 0x1680 \<or>
     (0x2000 \<le> c \<and> c \<le> 0x200A) \<or>
     c = 0x2028 \<or> c = 0x2029 \<or> c = 0x202F \<or> c = 0x205F \<or>
     c = 0x3000 \<or> c = 0xFEFF"

definition trim :: "jsstring \<Rightarrow> jsstring" where
  "trim s = rev (dropWhile isWhiteSpace (rev (dropWhile isWhiteSpace s)))"

text \<open>\<^verbatim>\<open>s.startsWith(p)\<close>: the code units of \<open>p\<close> open \<open>s\<close>.\<close>

fun startsWith :: "jsstring \<Rightarrow> jsstring \<Rightarrow> bool" where
  "startsWith s [] = True"
| "startsWith [] (p # ps) = False"
| "startsWith (c # cs) (p # ps) = (c = p \<and> startsWith cs ps)"

text \<open>\<^verbatim>\<open>s.includes(p)\<close>: \<open>p\<close> occurs in \<open>s\<close> at some position.\<close>

fun str_includes :: "jsstring \<Rightarrow> jsstring \<Rightarrow> bool" where
  "str_includes [] p = (p = [])"
| "str_includes (c # cs) p = (startsWith (c # cs) p \<or> str_includes cs p)"

text \<open>Truthiness of a string: every string but the empty one.\<close>

definition truthy :: "jsstring \<Rightarrow> bool" where
  "truthy s \<longleftrightarrow> s \<noteq> []"

text \<open>
  A lower-casing of ASCII strings, which agrees with \<^verbatim>\<open>toLowerCase\<close> on them; it
  instantiates the parameter of the list handler on concrete inputs.
\<close>

definition asciiLower :: "jsstring \<Rightarrow> jsstring" where
  "asciiLower s = map (\<lambda>c. if 0x41 \<le> c \<and> c \<le> 0x5A then c + 0x20 else c) s"

section \<open>JSON values\<close>

text \<open>
  What \<^verbatim>\<open>express.json()\<close> can put under a key of \<^verbatim>\<open>req.body\<close>. A number is kept
  by its integer value (a number with a fraction is truthy, as every number but
  zero is).
\<close>

datatype JsonValue =
    JNull
  | JBool bool
  | JNumber int
  | JString jsstring
  | JArray "JsonValue list"
  | JObject "(jsstring \<times> JsonValue) list"

text \<open>
  Truthiness of a value, as \<^verbatim>\<open>||\<close> tests it: \<^verbatim>\<open>null\<close>, \<^verbatim>\<open>false\<close>, \<^verbatim>\<open>0\<close> and the
  empty string are falsy, every other value is truthy, arrays and objects included.
\<close>

fun truthyJson :: "JsonValue \<Rightarrow> bool" where
  "truthyJson JNull = False"
| "truthyJson (JBool b) = b"
| "truthyJson (JNumber n) = (n \<noteq> 0)"
| "truthyJson (JString s) = truthy s"
| "truthyJson (JArray vs) = True"
| "truthyJson (JObject kvs) = True"

text \<open>\<^verbatim>\<open>typeof v === 'string'\<close>.\<close>

fun isString :: "JsonValue \<Rightarrow> bool" where
  "isString (JString s) = True"
| "isString v = False"

section \<open>Data model\<close>

datatype TaskCategory = Bug | Feature | Documentation | Refactor | Test

datatype TaskStatus = ToDo | InProgress | Done

datatype TaskPriority = Low | Medium | High

text \<open>
  \<^verbatim>\<open>interface Task\<close>. The field \<^verbatim>\<open>id\<close> is \<open>id_task\<close> here; \<^verbatim>\<open>description\<close> is the one
  optional field. It is declared a string, but both handlers that write it store the
  value of the request body as it came, which nothing has checked: a stored
  description is a JSON value.
\<close>

record Task =
  id_task :: jsstring
  title :: jsstring
  description :: "JsonValue option"
  category :: TaskCategory
  status :: TaskStatus
  priority :: TaskPriority
  createdAt :: jsstring

text \<open>
  \<^verbatim>\<open>Partial<Task>\<close>, the declared type of both request bodies: every field of
  \<^verbatim>\<open>Task\<close>, each one optional. \<open>None\<close> is a field that the body does not supply
  (\<^verbatim>\<open>undefined\<close> when read). The body is \<^verbatim>\<open>req.body\<close> as parsed, so its
  description is whatever JSON value the request carried.
\<close>

record PartialTask =
  p_id :: "jsstring option"
  p_title :: "jsstring option"
  p_description :: "JsonValue option"
  p_category :: "TaskCategory option"
  p_status :: "TaskStatus option"
  p_priority :: "TaskPriority option"
  p_createdAt :: "jsstring option"

definition emptyBody :: PartialTask where
  "emptyBody = \<lparr>p_id = None, p_title = None, p_description = None, p_category = None,
     p_status = None, p_priority = None, p_createdAt = None\<rparr>"

text \<open>The in-memory collection at startup.\<close>

definition seedTasks :: "Task list" where
  "seedTasks =
    [\<lparr>id_task = js ''1'', title = js ''Fix UI glitches'',
      description = Some (JString (js ''Resolve layout shift issues on the dashboard when switching themes.'')),
      category = Bug, status = ToDo, priority = Low,
      createdAt = js ''2025-07-15T09:00:00Z''\<rparr>,
     \<lparr>id_task = js ''2'', title = js ''Add unit tests'',
      description = Some (JString (js ''Cover edge cases for the authentication module.'')),
      category = Feature, status = ToDo, priority = High,
      createdAt = js ''2025-07-16T10:30:00Z''\<rparr>,
     \<lparr>id_task = js ''4'', title = js ''Refactor auth middleware'',
      description = Some (JString (js ''Improve code readability and separate concerns for easier testing.'')),
      category = Refactor, status = Done, priority = Medium,
      createdAt = js ''2025-07-12T08:20:00Z''\<rparr>,
     \<lparr>id_task = js ''5'', title = js ''Fix login redirect bug'',
      description = Some (JString (js ''Users are not redirected properly after logging in.'')),
      category = Bug, status = InProgress, priority = Medium,
      createdAt = js ''2025-07-17T11:10:00Z''\<rparr>,
     \<lparr>id_task = js ''7'', title = js ''Document CLI usage'',
      description = Some (JString (js ''Write user-facing documentation for the new CLI tool.'')),
      category = Documentation, status = Done, priority = Medium,
      createdAt = js ''2025-07-10T15:40:00Z''\<rparr>]"

section \<open>Responses\<close>

text \<open>
  The error payloads \<^verbatim>\<open>{ error: ... }\<close>, one constructor for each message of the
  source: task not found (GET, PATCH and DELETE by id), title required and
  category, status and priority required (POST), title must not be empty (PATCH).
\<close>

datatype ErrorMessage = TaskNotFound | TitleRequired | FieldsRequired | TitleEmpty

datatype Payload =
    TaskJson Task
  | TaskListJson "Task list"
  | ErrorJson ErrorMessage
  | NoBody

text \<open>A response is the status code and what was sent; \<^verbatim>\<open>res.json\<close> alone sends 200.\<close>

record Response =
  code :: nat
  payload :: Payload

definition respond :: "nat \<Rightarrow> Payload \<Rightarrow> Response" where
  "respond c p = \<lparr>code = c, payload = p\<rparr>"

section \<open>Handlers\<close>

text \<open>
  A value of \<^verbatim>\<open>req.query\<close>: a string, or an array or nested object (whatever the
  query parser built from repeated or bracketed keys), of which the handler only asks
  \<^verbatim>\<open>typeof\<close>. An absent key is \<open>None\<close>.
\<close>

datatype QueryValue = QString jsstring | QNonString

text \<open>\<^verbatim>\<open>v && typeof v === 'string'\<close>, with the string it lets through.\<close>

fun stringParam :: "QueryValue option \<Rightarrow> jsstring option" where
  "stringParam (Some (QString s)) = (if truthy s then Some s else None)"
| "stringParam (Some QNonString) = None"
| "stringParam None = None"

text \<open>
  \<^verbatim>\<open>GET /tasks\<close>. \<open>toLowerCase\<close> is the runtime's \<^verbatim>\<open>String.prototype.toLowerCase\<close>.
  The handler reads the collection and leaves it as it is.
\<close>

definition getTasks ::
  "(jsstring \<Rightarrow> jsstring) \<Rightarrow> QueryValue option \<Rightarrow> QueryValue option \<Rightarrow> Task list \<Rightarrow> Response"
where
  "getTasks toLowerCase qtitle qdate tasks =
    (let result = tasks;
         result = (case stringParam qtitle of
                     Some t \<Rightarrow> filter (\<lambda>task. str_includes (toLowerCase (title task)) (toLowerCase t)) result
                   | None \<Rightarrow> result);
         result = (case stringParam qdate of
                     Some d \<Rightarrow> filter (\<lambda>task. startsWith (createdAt task) d) result
                   | None \<Rightarrow> result)
     in respond 200 (TaskListJson result))"

text \<open>\<^verbatim>\<open>GET /tasks/:id\<close>.\<close>

definition getTask :: "jsstring \<Rightarrow> Task list \<Rightarrow> Response" where
  "getTask i tasks =
    (case find (\<lambda>t. id_task t = i) tasks of
       None \<Rightarrow> respond 404 (ErrorJson TaskNotFound)
     | Some task \<Rightarrow> respond 200 (TaskJson task))"

text \<open>
  \<^verbatim>\<open>POST /tasks\<close>. \<open>newId\<close> is what \<^verbatim>\<open>nanoid()\<close> returned and \<open>now\<close> what
  \<^verbatim>\<open>new Date().toISOString()\<close> returned for this request. The result is the
  response and the collection after the request. \<^verbatim>\<open>description || ''\<close> is the
  description of the body when that is truthy, of whatever type, and the empty
  string otherwise.
\<close>

definition postTask :: "jsstring \<Rightarrow> jsstring \<Rightarrow> PartialTask \<Rightarrow> Task list \<Rightarrow> Response \<times> Task list" where
  "postTask newId now body tasks =
    (case p_title body of
       None \<Rightarrow> (respond 400 (ErrorJson TitleRequired), tasks)
     | Some t \<Rightarrow>
         if \<not> truthy t \<or> \<not> truthy (trim t) then (respond 400 (ErrorJson TitleRequired), tasks)
         else
           (case (p_category body, p_status body, p_priority body) of
              (Some c, Some s, Some p) \<Rightarrow>
                (let newTask = \<lparr>id_task = newId, title = trim t,
                        description = Some (case p_description body of
                                              None \<Rightarrow> JString []
                                            | Some d \<Rightarrow> if truthyJson d then d else JString []),
                        category = c, status = s, priority = p, createdAt = now\<rparr>
                 in (respond 201 (TaskJson newTask), tasks @ [newTask]))
            | _ \<Rightarrow> (respond 400 (ErrorJson FieldsRequired), tasks)))"

text \<open>\<^verbatim>\<open>tasks.findIndex(pred)\<close>; \<open>None\<close> is the result \<^verbatim>\<open>-1\<close>.\<close>

fun findIndex :: "('a \<Rightarrow> bool) \<Rightarrow> 'a list \<Rightarrow> nat option" where
  "findIndex P [] = None"
| "findIndex P (x # xs) =
     (if P x then Some 0 else (case findIndex P xs of None \<Rightarrow> None | Some i \<Rightarrow> Some (Suc i)))"

text \<open>
  The object spread \<^verbatim>\<open>{ ...task, ...updates }\<close>: every field that \<open>updates\<close>
  supplies replaces the one of \<open>task\<close>, every other field is the one of \<open>task\<close>.
\<close>

definition merge :: "Task \<Rightarrow> PartialTask \<Rightarrow> Task" where
  "merge task updates =
    \<lparr>id_task = (case p_id updates of None \<Rightarrow> id_task task | Some v \<Rightarrow> v),
     title = (case p_title updates of None \<Rightarrow> title task | Some v \<Rightarrow> v),
     description = (case p_description updates of None \<Rightarrow> description task | Some v \<Rightarrow> Some v),
     category = (case p_category updates of None \<Rightarrow> category task | Some v \<Rightarrow> v),
     status = (case p_status updates of None \<Rightarrow> status task | Some v \<Rightarrow> v),
     priority = (case p_priority updates of None \<Rightarrow> priority task | Some v \<Rightarrow> v),
     createdAt = (case p_createdAt updates of None \<Rightarrow> createdAt task | Some v \<Rightarrow> v)\<rparr>"

text \<open>\<^verbatim>\<open>PATCH /tasks/:id\<close>.\<close>

definition patchTask :: "jsstring \<Rightarrow> PartialTask \<Rightarrow> Task list \<Rightarrow> Response \<times> Task list" where
  "patchTask i updates tasks =
    (case findIndex (\<lambda>t. id_task t = i) tasks of
       None \<Rightarrow> (respond 404 (ErrorJson TaskNotFound), tasks)
     | Some taskIndex \<Rightarrow>
         if (case p_title updates of None \<Rightarrow> False | Some t \<Rightarrow> \<not> truthy (trim t))
         then (respond 400 (ErrorJson TitleEmpty), tasks)
         else
           (let tasks' = tasks[taskIndex := merge (tasks ! taskIndex) updates]
            in (respond 200 (TaskJson (tasks' ! taskIndex)), tasks')))"

text \<open>\<^verbatim>\<open>DELETE /tasks/:id\<close>; \<^verbatim>\<open>splice(taskIndex, 1)\<close> removes the one element there.\<close>

definition deleteTask :: "jsstring \<Rightarrow> Task list \<Rightarrow> Response \<times> Task list" where
  "deleteTask i tasks =
    (case findIndex (\<lambda>t. id_task t = i) tasks of
       None \<Rightarrow> (respond 404 (ErrorJson TaskNotFound), tasks)
     | Some taskIndex \<Rightarrow> (respond 204 NoBody, take taskIndex tasks @ drop (Suc taskIndex) tasks))"

section \<open>Sequences of requests\<close>

text \<open>
  The three requests that change the collection, with what the environment gave to
  each: for Create the generated id and the time stamp.
\<close>

datatype Request =
    Create jsstring jsstring PartialTask
  | Update jsstring PartialTask
  | Delete jsstring

fun handle :: "Request \<Rightarrow> Task list \<Rightarrow> Response \<times> Task list" where
  "handle (Create newId now body) tasks = postTask newId now body tasks"
| "handle (Update i updates) tasks = patchTask i updates tasks"
| "handle (Delete i) tasks = deleteTask i tasks"

text \<open>The collection after a sequence of requests, each one handled to its end.\<close>

fun run :: "Request list \<Rightarrow> Task list \<Rightarrow> Task list" where
  "run [] tasks = tasks"
| "run (r # rs) tasks = run rs (snd (handle r tasks))"

section \<open>Properties of a collection and of a run\<close>

text \<open>Every stored title is a truthy string after trimming.\<close>

definition titlesOk :: "Task list \<Rightarrow> bool" where
  "titlesOk tasks \<longleftrightarrow> list_all (\<lambda>t. truthy (trim (title t))) tasks"

text \<open>
  A request that cannot make two stored ids equal: a Create whose generated id is
  carried by no stored task, an Update whose body supplies no id, or the id of the
  request, or an id carried by no stored task, and any Delete.
\<close>

fun idSafe :: "Request \<Rightarrow> Task list \<Rightarrow> bool" where
  "idSafe (Create newId now body) tasks = (newId \<notin> id_task ` set tasks)"
| "idSafe (Update i updates) tasks =
     (case p_id updates of None \<Rightarrow> True | Some v \<Rightarrow> v = i \<or> v \<notin> id_task ` set tasks)"
| "idSafe (Delete i) tasks = True"

text \<open>Every request of the sequence is such a request on the collection it meets.\<close>

fun idSafeRun :: "Request list \<Rightarrow> Task list \<Rightarrow> bool" where
  "idSafeRun [] tasks = True"
| "idSafeRun (r # rs) tasks = (idSafe r tasks \<and> idSafeRun rs (snd (handle r tasks)))"

section \<open>The string operations and the array search\<close>

text \<open>
  \<open>startsWith\<close> and \<open>str_includes\<close> compute the prefix and the contiguous-sublist
  relations of the list library.
\<close>

lemma startsWith_prefix: "startsWith s p \<longleftrightarrow> prefix p s"
  by (induction s p rule: startsWith.induct) auto

lemma str_includes_sublist: "str_includes s p \<longleftrightarrow> sublist p s"
  by (induction s) (auto simp: startsWith_prefix sublist_Cons_right)

lemma dropWhile_all: "(\<forall>x \<in> set (dropWhile P xs). P x) \<longleftrightarrow> (\<forall>x \<in> set xs. P x)"
  by (induction xs) auto

text \<open>Trimming leaves nothing exactly when every code unit is white space.\<close>

lemma trim_Nil_iff: "trim s = [] \<longleftrightarrow> (\<forall>c \<in> set s. isWhiteSpace c)"
proof -
  have "trim s = [] \<longleftrightarrow> (\<forall>c \<in> set (dropWhile isWhiteSpace s). isWhiteSpace c)"
    by (simp add: trim_def)
  then show ?thesis
    by (simp add: dropWhile_all)
qed

lemma dropWhile_fixed: "xs = [] \<or> \<not> P (hd xs) \<Longrightarrow> dropWhile P xs = xs"
  by (cases xs) auto

lemma last_dropWhile: "dropWhile P xs \<noteq> [] \<Longrightarrow> last (dropWhile P xs) = last xs"
  by (induction xs) (auto split: if_splits)

text \<open>A trimmed string has nothing left to trim.\<close>

lemma trim_idem: "trim (trim s) = trim s"
proof -
  define a where "a = dropWhile isWhiteSpace s"
  define b where "b = dropWhile isWhiteSpace (rev a)"
  have a: "a = [] \<or> \<not> isWhiteSpace (hd a)"
    unfolding a_def using hd_dropWhile [of isWhiteSpace s] by blast
  have "rev b = [] \<or> \<not> isWhiteSpace (hd (rev b))"
  proof (cases "b = []")
    case True
    then show ?thesis by simp
  next
    case False
    then have "last b = last (rev a)"
      unfolding b_def by (rule last_dropWhile)
    moreover from False have "a \<noteq> []"
      unfolding b_def by auto
    ultimately have "hd (rev b) = hd a"
      using False by (simp add: hd_rev last_rev)
    with a \<open>a \<noteq> []\<close> show ?thesis by simp
  qed
  then have "dropWhile isWhiteSpace (rev b) = rev b"
    by (rule dropWhile_fixed)
  moreover have "dropWhile isWhiteSpace b = b"
    unfolding b_def by simp
  ultimately have "rev (dropWhile isWhiteSpace (rev (dropWhile isWhiteSpace (rev b)))) = rev b"
    by simp
  then show ?thesis
    by (simp add: trim_def a_def b_def)
qed

text \<open>\<open>findIndex\<close> answers \<open>None\<close> when no element passes, and the first index otherwise.\<close>

lemma findIndex_None_iff: "findIndex P xs = None \<longleftrightarrow> (\<forall>x \<in> set xs. \<not> P x)"
  by (induction xs) (auto split: option.splits)

lemma findIndex_Some:
  "findIndex P xs = Some k \<Longrightarrow> k < length xs \<and> P (xs ! k) \<and> (\<forall>j<k. \<not> P (xs ! j))"
proof (induction xs arbitrary: k)
  case Nil
  then show ?case by simp
next
  case (Cons x xs)
  show ?case
  proof (cases "P x")
    case True
    with Cons.prems show ?thesis by simp
  next
    case False
    with Cons.prems obtain k' where k': "findIndex P xs = Some k'" "k = Suc k'"
      by (auto split: option.splits)
    from Cons.IH [OF k'(1)] False k'(2) show ?thesis
      by (auto simp: less_Suc_eq_0_disj)
  qed
qed

lemma findIndex_member:
  assumes "x \<in> set xs" and "P x"
  obtains k where "findIndex P xs = Some k"
  using assms by (cases "findIndex P xs") (auto simp: findIndex_None_iff)

lemma findIndex_distinct:
  assumes "distinct (map f xs)" and "k < length xs"
  shows "findIndex (\<lambda>x. f x = f (xs ! k)) xs = Some k"
proof -
  have "xs ! k \<in> set xs" using assms(2) by simp
  then obtain j where j: "findIndex (\<lambda>x. f x = f (xs ! k)) xs = Some j"
    by (rule findIndex_member) simp
  from findIndex_Some [OF j] have "j < length xs" "f (xs ! j) = f (xs ! k)" by auto
  with assms have "j = k"
    by (metis distinct_conv_nth length_map nth_map)
  with j show ?thesis by simp
qed

lemma findIndex_first:
  assumes "k < length xs" and "P (xs ! k)" and "\<forall>j<k. \<not> P (xs ! j)"
  shows "findIndex P xs = Some k"
proof -
  from assms(1) have "xs ! k \<in> set xs" by simp
  then obtain i where i: "findIndex P xs = Some i"
    using assms(2) by (rule findIndex_member)
  from findIndex_Some [OF i] have "P (xs ! i)" and "\<forall>j<i. \<not> P (xs ! j)" by auto
  with assms(2,3) have "i = k"
    by (meson linorder_neqE_nat)
  with i show ?thesis by simp
qed

section \<open>Creating a task\<close>

text \<open>
  C3. A POST whose title is absent, empty or made of white space only is answered
  400, and the collection after the request is the collection before it.
\<close>

theorem post_blank_title_rejected:
  assumes "p_title body = None \<or> (\<exists>s. p_title body = Some s \<and> (\<forall>c \<in> set s. isWhiteSpace c))"
  shows "postTask newId now body tasks = (respond 400 (ErrorJson TitleRequired), tasks)"
  using assms by (auto simp: postTask_def truthy_def trim_Nil_iff)

theorem post_blank_title_rejected_witness:
  "(\<exists>s. p_title (emptyBody\<lparr>p_title := Some (js ''   ''), p_category := Some Bug,
            p_status := Some ToDo, p_priority := Some Low\<rparr>) = Some s
        \<and> (\<forall>c \<in> set s. isWhiteSpace c)) \<and>
   postTask (js ''n1'') (js ''2025-08-01T00:00:00.000Z'')
     (emptyBody\<lparr>p_title := Some (js ''   ''), p_category := Some Bug,
        p_status := Some ToDo, p_priority := Some Low\<rparr>) seedTasks
   = (respond 400 (ErrorJson TitleRequired), seedTasks)"
proof -
  have h: "\<exists>s. p_title (emptyBody\<lparr>p_title := Some (js ''   ''), p_category := Some Bug,
            p_status := Some ToDo, p_priority := Some Low\<rparr>) = Some s
        \<and> (\<forall>c \<in> set s. isWhiteSpace c)"
    by (simp add: emptyBody_def js_def isWhiteSpace_def)
  with post_blank_title_rejected [OF disjI2, OF h] show ?thesis
    by blast
qed

text \<open>
  C10, as the handler has it. A POST answered 201 has stored, and sent back, a
  task whose title is the trimmed title of the body and which has a description:
  the empty string when the body has no description or a falsy one (\<^verbatim>\<open>null\<close>,
  \<^verbatim>\<open>false\<close>, \<^verbatim>\<open>0\<close>, the empty string), and the description of the body as it
  came when that is truthy, so a string when the body supplied a string.
\<close>

theorem post_created_task:
  assumes "code (fst (postTask newId now body tasks)) = 201"
  shows "\<exists>t newTask. p_title body = Some t \<and>
           postTask newId now body tasks = (respond 201 (TaskJson newTask), tasks @ [newTask]) \<and>
           title newTask = trim t \<and>
           (p_description body = None \<or> (\<exists>d. p_description body = Some d \<and> \<not> truthyJson d)
              \<longrightarrow> description newTask = Some (JString [])) \<and>
           (\<forall>d. p_description body = Some d \<and> truthyJson d \<longrightarrow> description newTask = Some d) \<and>
           (\<forall>s. p_description body = Some (JString s) \<longrightarrow> description newTask = Some (JString s))"
  using assms
  by (auto simp: postTask_def respond_def truthy_def Let_def split: option.splits if_splits)

theorem post_created_task_witness:
  "code (fst (postTask (js ''V1StGXR8'') (js ''2025-08-01T00:00:00.000Z'')
      (emptyBody\<lparr>p_title := Some (js ''  Write docs ''), p_description := Some (JBool False),
         p_category := Some Documentation, p_status := Some ToDo,
         p_priority := Some Low\<rparr>) seedTasks)) = 201 \<and>
   (\<exists>newTask.
      snd (postTask (js ''V1StGXR8'') (js ''2025-08-01T00:00:00.000Z'')
        (emptyBody\<lparr>p_title := Some (js ''  Write docs ''), p_description := Some (JBool False),
           p_category := Some Documentation, p_status := Some ToDo,
           p_priority := Some Low\<rparr>) seedTasks) = seedTasks @ [newTask] \<and>
      title newTask = js ''Write docs'' \<and> description newTask = Some (JString []))"
proof -
  let ?body = "emptyBody\<lparr>p_title := Some (js ''  Write docs ''), p_description := Some (JBool False),
         p_category := Some Documentation, p_status := Some ToDo, p_priority := Some Low\<rparr>"
  let ?res = "postTask (js ''V1StGXR8'') (js ''2025-08-01T00:00:00.000Z'') ?body seedTasks"
  have c: "code (fst ?res) = 201"
    by (simp add: postTask_def emptyBody_def respond_def truthy_def trim_def js_def
        isWhiteSpace_def Let_def)
  have t: "trim (js ''  Write docs '') = js ''Write docs''"
    by (simp add: trim_def js_def isWhiteSpace_def)
  have b: "p_title ?body = Some (js ''  Write docs '')" "p_description ?body = Some (JBool False)"
    by (simp_all add: emptyBody_def)
  from post_created_task [OF c] c t b show ?thesis
    by auto
qed

text \<open>
  C10, as stated, fails on a description that is truthy and not a string: a POST
  whose body has the description 123, with a title, a category, a status and a
  priority, is answered 201, and the stored task has the number 123 for its
  description.
\<close>

theorem post_created_task_counterexample:
  "postTask (js ''V1StGXR8'') (js ''2025-08-01T00:00:00.000Z'')
     (emptyBody\<lparr>p_title := Some (js ''Write docs''), p_description := Some (JNumber 123),
        p_category := Some Documentation, p_status := Some ToDo,
        p_priority := Some Low\<rparr>) seedTasks =
   (respond 201 (TaskJson
      \<lparr>id_task = js ''V1StGXR8'', title = js ''Write docs'',
       description = Some (JNumber 123), category = Documentation, status = ToDo,
       priority = Low, createdAt = js ''2025-08-01T00:00:00.000Z''\<rparr>),
    seedTasks @
      [\<lparr>id_task = js ''V1StGXR8'', title = js ''Write docs'',
        description = Some (JNumber 123), category = Documentation, status = ToDo,
        priority = Low, createdAt = js ''2025-08-01T00:00:00.000Z''\<rparr>]) \<and>
   \<not> isString (JNumber 123)"
  by (simp add: postTask_def emptyBody_def truthy_def trim_def js_def isWhiteSpace_def Let_def)

section \<open>Listing tasks\<close>

text \<open>
  C5. With a title parameter \<open>s\<close> and no date parameter, the list handler answers
  with the stored tasks, in storage order, whose lower-cased title contains the
  lower-cased \<open>s\<close>, and with no other task. The lower-casing of the runtime maps
  the empty string to itself, which is all the handler needs of it.
\<close>

theorem list_by_title:
  assumes "toLowerCase [] = []"
  shows "getTasks toLowerCase (Some (QString s)) None tasks =
    respond 200 (TaskListJson
      (filter (\<lambda>task. sublist (toLowerCase s) (toLowerCase (title task))) tasks))"
  using assms by (simp add: getTasks_def truthy_def str_includes_sublist)

theorem list_by_title_witness:
  "asciiLower [] = [] \<and>
   getTasks asciiLower (Some (QString (js ''BUG''))) None seedTasks =
     respond 200 (TaskListJson
       (filter (\<lambda>task. sublist (js ''bug'') (asciiLower (title task))) seedTasks)) \<and>
   filter (\<lambda>task. sublist (js ''bug'') (asciiLower (title task))) seedTasks = [seedTasks ! 3]"
proof -
  have e: "asciiLower [] = []" by (simp add: asciiLower_def)
  have l: "asciiLower (js ''BUG'') = js ''bug''" by (simp add: asciiLower_def js_def)
  have f: "filter (\<lambda>task. sublist (js ''bug'') (asciiLower (title task))) seedTasks = [seedTasks ! 3]"
    by (simp add: seedTasks_def js_def asciiLower_def flip: str_includes_sublist)
  from e l f list_by_title [of asciiLower "js ''BUG''" seedTasks] show ?thesis
    by simp
qed



section \<open>Updating a task\<close>

text \<open>
  C7. A PATCH on an id that no stored task carries is answered 404, and the
  collection after the request is the collection before it.
\<close>

theorem patch_unknown_id:
  assumes "i \<notin> id_task ` set tasks"
  shows "patchTask i updates tasks = (respond 404 (ErrorJson TaskNotFound), tasks)"
proof -
  from assms have "findIndex (\<lambda>t. id_task t = i) tasks = None"
    by (auto simp: findIndex_None_iff)
  then show ?thesis by (simp add: patchTask_def)
qed

theorem patch_unknown_id_witness:
  "js ''3'' \<notin> id_task ` set seedTasks \<and>
   patchTask (js ''3'') (emptyBody\<lparr>p_status := Some Done\<rparr>) seedTasks
   = (respond 404 (ErrorJson TaskNotFound), seedTasks)"
proof -
  have h: "js ''3'' \<notin> id_task ` set seedTasks"
    by (simp add: seedTasks_def js_def)
  with patch_unknown_id [OF h] show ?thesis
    by simp
qed

text \<open>
  C1, as the handler has it. A PATCH on the id of a stored task that is answered 200
  replaces the first stored task with that id by the merged task. The merged task
  has the id and the \<open>createdAt\<close> of the task it replaces where the body supplies
  none, and the id and the \<open>createdAt\<close> of the body where the body supplies them.
\<close>

theorem patch_id_createdAt:
  assumes "t \<in> set tasks" and "code (fst (patchTask (id_task t) updates tasks)) = 200"
  shows "\<exists>k m. findIndex (\<lambda>x. id_task x = id_task t) tasks = Some k \<and>
           patchTask (id_task t) updates tasks = (respond 200 (TaskJson m), tasks[k := m]) \<and>
           id_task m = (case p_id updates of None \<Rightarrow> id_task (tasks ! k) | Some v \<Rightarrow> v) \<and>
           createdAt m = (case p_createdAt updates of None \<Rightarrow> createdAt (tasks ! k) | Some v \<Rightarrow> v)"
proof -
  from assms(1) obtain k where k: "findIndex (\<lambda>x. id_task x = id_task t) tasks = Some k"
    by (rule findIndex_member) simp
  from findIndex_Some [OF k] have kl: "k < length tasks" by simp
  from assms(2) k have ok: "\<not> (case p_title updates of None \<Rightarrow> False | Some s \<Rightarrow> \<not> truthy (trim s))"
    by (auto simp: patchTask_def respond_def split: if_splits)
  let ?m = "merge (tasks ! k) updates"
  from k ok kl have "patchTask (id_task t) updates tasks = (respond 200 (TaskJson ?m), tasks[k := ?m])"
    by (simp add: patchTask_def Let_def)
  moreover have "id_task ?m = (case p_id updates of None \<Rightarrow> id_task (tasks ! k) | Some v \<Rightarrow> v)"
    and "createdAt ?m = (case p_createdAt updates of None \<Rightarrow> createdAt (tasks ! k) | Some v \<Rightarrow> v)"
    by (simp_all add: merge_def)
  ultimately show ?thesis using k by blast
qed

theorem patch_id_createdAt_witness:
  "seedTasks ! 1 \<in> set seedTasks \<and>
   code (fst (patchTask (id_task (seedTasks ! 1))
     (emptyBody\<lparr>p_title := Some (js ''Add more unit tests'')\<rparr>) seedTasks)) = 200 \<and>
   (\<exists>k m. findIndex (\<lambda>x. id_task x = id_task (seedTasks ! 1)) seedTasks = Some k \<and>
      patchTask (id_task (seedTasks ! 1))
        (emptyBody\<lparr>p_title := Some (js ''Add more unit tests'')\<rparr>) seedTasks =
        (respond 200 (TaskJson m), seedTasks[k := m]) \<and>
      id_task m = id_task (seedTasks ! k) \<and> createdAt m = createdAt (seedTasks ! k))"
proof -
  let ?u = "emptyBody\<lparr>p_title := Some (js ''Add more unit tests'')\<rparr>"
  have h1: "seedTasks ! 1 \<in> set seedTasks"
    by (simp add: seedTasks_def)
  have h2: "code (fst (patchTask (id_task (seedTasks ! 1)) ?u seedTasks)) = 200"
    by (simp add: patchTask_def emptyBody_def seedTasks_def js_def Let_def respond_def
        truthy_def trim_def isWhiteSpace_def)
  have u: "p_id ?u = None" "p_createdAt ?u = None"
    by (simp_all add: emptyBody_def)
  from patch_id_createdAt [OF h1 h2] h1 h2 show ?thesis
    unfolding u by simp
qed

text \<open>
  C1, as stated, fails on the first seed task: a PATCH on id 1 whose body supplies
  the id 2 and a \<open>createdAt\<close> of 1999 is answered 200 with a task that carries
  both, and that task is stored in place of the seed task.
\<close>

theorem patch_id_createdAt_counterexample:
  "id_task (seedTasks ! 0) = js ''1'' \<and> createdAt (seedTasks ! 0) = js ''2025-07-15T09:00:00Z'' \<and>
   code (fst (patchTask (js ''1'')
     (emptyBody\<lparr>p_id := Some (js ''2''), p_createdAt := Some (js ''1999-12-31T23:59:59Z'')\<rparr>) seedTasks)) = 200 \<and>
   payload (fst (patchTask (js ''1'')
     (emptyBody\<lparr>p_id := Some (js ''2''), p_createdAt := Some (js ''1999-12-31T23:59:59Z'')\<rparr>) seedTasks)) =
     TaskJson ((seedTasks ! 0)\<lparr>id_task := js ''2'', createdAt := js ''1999-12-31T23:59:59Z''\<rparr>) \<and>
   snd (patchTask (js ''1'')
     (emptyBody\<lparr>p_id := Some (js ''2''), p_createdAt := Some (js ''1999-12-31T23:59:59Z'')\<rparr>) seedTasks) =
     seedTasks[0 := (seedTasks ! 0)\<lparr>id_task := js ''2'', createdAt := js ''1999-12-31T23:59:59Z''\<rparr>] \<and>
   js ''2'' \<noteq> js ''1'' \<and> js ''1999-12-31T23:59:59Z'' \<noteq> js ''2025-07-15T09:00:00Z''"
  by (simp add: patchTask_def merge_def emptyBody_def seedTasks_def js_def Let_def respond_def)

text \<open>
  C4, as the handler has it. For a stored task that is the first in storage order
  with its id, a PATCH on that id whose body supplies the status alone is answered
  200 with that task under the new status, every other field as it was, and stores
  it in the same place.
\<close>

theorem patch_status_only:
  assumes "k < length tasks" and "\<forall>j<k. id_task (tasks ! j) \<noteq> id_task (tasks ! k)"
  shows "patchTask (id_task (tasks ! k)) (emptyBody\<lparr>p_status := Some s\<rparr>) tasks =
    (respond 200 (TaskJson
       \<lparr>id_task = id_task (tasks ! k), title = title (tasks ! k),
        description = description (tasks ! k), category = category (tasks ! k),
        status = s, priority = priority (tasks ! k), createdAt = createdAt (tasks ! k)\<rparr>),
     tasks[k := \<lparr>id_task = id_task (tasks ! k), title = title (tasks ! k),
        description = description (tasks ! k), category = category (tasks ! k),
        status = s, priority = priority (tasks ! k), createdAt = createdAt (tasks ! k)\<rparr>])"
proof -
  have "findIndex (\<lambda>x. id_task x = id_task (tasks ! k)) tasks = Some k"
    using assms by (intro findIndex_first) auto
  with assms(1) show ?thesis
    by (simp add: patchTask_def merge_def emptyBody_def Let_def)
qed

theorem patch_status_only_witness:
  "(3::nat) < length seedTasks \<and>
   id_task (seedTasks ! 0) \<noteq> id_task (seedTasks ! 3) \<and>
   id_task (seedTasks ! 1) \<noteq> id_task (seedTasks ! 3) \<and>
   id_task (seedTasks ! 2) \<noteq> id_task (seedTasks ! 3) \<and>
   patchTask (js ''5'') (emptyBody\<lparr>p_status := Some Done\<rparr>) seedTasks =
     (respond 200 (TaskJson ((seedTasks ! 3)\<lparr>status := Done\<rparr>)),
      seedTasks[3 := (seedTasks ! 3)\<lparr>status := Done\<rparr>])"
proof -
  have h1: "(3::nat) < length seedTasks"
    by (simp add: seedTasks_def)
  have h2: "\<forall>j<3. id_task (seedTasks ! j) \<noteq> id_task (seedTasks ! 3)"
    by (simp add: seedTasks_def js_def numeral_3_eq_3 less_Suc_eq)
  have i: "id_task (seedTasks ! 3) = js ''5''"
    by (simp add: seedTasks_def)
  have h3: "id_task (seedTasks ! 0) \<noteq> id_task (seedTasks ! 3) \<and>
      id_task (seedTasks ! 1) \<noteq> id_task (seedTasks ! 3) \<and>
      id_task (seedTasks ! 2) \<noteq> id_task (seedTasks ! 3)"
    by (simp add: seedTasks_def js_def)
  from patch_status_only [OF h1 h2, of Done] h1 h3 show ?thesis
    unfolding i by (simp add: seedTasks_def)
qed

text \<open>
  C4, as stated, fails once two stored tasks share an id. After a PATCH on id 2
  whose body supplies the id 1, the second stored task carries the id 1; a PATCH on
  its id with the status alone is answered with the first stored task, which has
  another title, and leaves the second one as it was.
\<close>

theorem patch_status_only_counterexample:
  "run [Update (js ''2'') (emptyBody\<lparr>p_id := Some (js ''1'')\<rparr>)] seedTasks =
     [seedTasks ! 0, (seedTasks ! 1)\<lparr>id_task := js ''1''\<rparr>, seedTasks ! 2, seedTasks ! 3, seedTasks ! 4] \<and>
   patchTask (id_task ((seedTasks ! 1)\<lparr>id_task := js ''1''\<rparr>)) (emptyBody\<lparr>p_status := Some Done\<rparr>)
     [seedTasks ! 0, (seedTasks ! 1)\<lparr>id_task := js ''1''\<rparr>, seedTasks ! 2, seedTasks ! 3, seedTasks ! 4] =
     (respond 200 (TaskJson ((seedTasks ! 0)\<lparr>status := Done\<rparr>)),
      [(seedTasks ! 0)\<lparr>status := Done\<rparr>, (seedTasks ! 1)\<lparr>id_task := js ''1''\<rparr>,
       seedTasks ! 2, seedTasks ! 3, seedTasks ! 4]) \<and>
   title ((seedTasks ! 0)\<lparr>status := Done\<rparr>) \<noteq> title ((seedTasks ! 1)\<lparr>id_task := js ''1''\<rparr>)"
  by (simp add: patchTask_def merge_def emptyBody_def seedTasks_def js_def Let_def respond_def)

section \<open>Deleting a task\<close>

lemma splice_distinct:
  assumes "distinct (map f xs)" and "k < length xs"
  shows "f (xs ! k) \<notin> f ` set (take k xs @ drop (Suc k) xs)"
proof -
  have "xs = take k xs @ xs ! k # drop (Suc k) xs"
    using assms(2) by (simp add: id_take_nth_drop)
  then have "distinct (map f (take k xs @ xs ! k # drop (Suc k) xs))"
    using assms(1) by simp
  then show ?thesis by auto
qed

text \<open>
  C8. In a collection of pairwise distinct ids, a DELETE on a stored id is answered
  204 and a GET on the same id afterwards is answered 404.
\<close>

theorem delete_then_get:
  assumes "distinct (map id_task tasks)" and "i \<in> id_task ` set tasks"
  shows "code (fst (deleteTask i tasks)) = 204 \<and>
         getTask i (snd (deleteTask i tasks)) = respond 404 (ErrorJson TaskNotFound)"
proof -
  from assms(2) obtain t where t: "t \<in> set tasks" "id_task t = i" by auto
  then obtain k where k: "findIndex (\<lambda>t. id_task t = i) tasks = Some k"
    by (rule findIndex_member)
  from findIndex_Some [OF k] have kl: "k < length tasks" and ki: "id_task (tasks ! k) = i"
    by auto
  from splice_distinct [OF assms(1) kl] ki
  have "find (\<lambda>t. id_task t = i) (take k tasks @ drop (Suc k) tasks) = None"
    unfolding find_None_iff by blast
  with k show ?thesis
    by (simp add: deleteTask_def getTask_def respond_def)
qed

theorem delete_then_get_witness:
  "distinct (map id_task seedTasks) \<and> js ''4'' \<in> id_task ` set seedTasks \<and>
   code (fst (deleteTask (js ''4'') seedTasks)) = 204 \<and>
   getTask (js ''4'') (snd (deleteTask (js ''4'') seedTasks)) = respond 404 (ErrorJson TaskNotFound)"
proof -
  have d: "distinct (map id_task seedTasks)"
    by (simp add: seedTasks_def js_def)
  have m: "js ''4'' \<in> id_task ` set seedTasks"
    by (simp add: seedTasks_def js_def)
  from d m delete_then_get [OF d m] show ?thesis by simp
qed

section \<open>Invariants of the collection\<close>

lemma titlesOk_post: "titlesOk tasks \<Longrightarrow> titlesOk (snd (postTask newId now body tasks))"
  by (auto simp: postTask_def titlesOk_def Let_def trim_idem split: option.splits)

lemma titlesOk_merge:
  assumes "truthy (trim (title task))"
    and "\<not> (case p_title updates of None \<Rightarrow> False | Some t \<Rightarrow> \<not> truthy (trim t))"
  shows "truthy (trim (title (merge task updates)))"
  using assms by (simp add: merge_def split: option.splits)

lemma titlesOk_patch:
  assumes "titlesOk tasks"
  shows "titlesOk (snd (patchTask i updates tasks))"
proof (cases "findIndex (\<lambda>t. id_task t = i) tasks")
  case None
  with assms show ?thesis by (simp add: patchTask_def)
next
  case (Some k)
  from findIndex_Some [OF Some] have k: "k < length tasks" by simp
  show ?thesis
  proof (cases "case p_title updates of None \<Rightarrow> False | Some t \<Rightarrow> \<not> truthy (trim t)")
    case True
    with Some assms show ?thesis by (simp add: patchTask_def)
  next
    case False
    from assms k have "truthy (trim (title (tasks ! k)))"
      by (simp add: titlesOk_def list_all_length)
    from titlesOk_merge [OF this False]
    have "titlesOk (tasks[k := merge (tasks ! k) updates])"
      using assms unfolding titlesOk_def list_all_iff
      by (metis insertE set_update_subset_insert subsetD)
    with Some False show ?thesis by (simp add: patchTask_def Let_def)
  qed
qed

lemma titlesOk_delete: "titlesOk tasks \<Longrightarrow> titlesOk (snd (deleteTask i tasks))"
  by (auto simp: deleteTask_def titlesOk_def list_all_iff split: option.splits
      dest: in_set_takeD in_set_dropD)

lemma titlesOk_handle: "titlesOk tasks \<Longrightarrow> titlesOk (snd (handle r tasks))"
  by (cases r) (simp_all add: titlesOk_post titlesOk_patch titlesOk_delete)

lemma titlesOk_run: "titlesOk tasks \<Longrightarrow> titlesOk (run rs tasks)"
  by (induction rs arbitrary: tasks) (simp_all add: titlesOk_handle)

lemma titlesOk_seed: "titlesOk seedTasks"
  by (simp add: titlesOk_def seedTasks_def truthy_def trim_def js_def isWhiteSpace_def)

text \<open>
  C9. After any sequence of Create, Update and Delete requests on the seed
  collection, every stored title is non-empty after trimming.
\<close>

theorem titles_stay_nonblank:
  "\<forall>t \<in> set (run rs seedTasks). trim (title t) \<noteq> []"
  using titlesOk_run [OF titlesOk_seed, of rs]
  by (simp add: titlesOk_def list_all_iff truthy_def)

theorem titles_stay_nonblank_witness:
  "map title (run [Update (js ''1'') (emptyBody\<lparr>p_title := Some (js '' Fix UI '')\<rparr>),
                   Update (js ''2'') (emptyBody\<lparr>p_title := Some (js ''  '')\<rparr>),
                   Delete (js ''4''),
                   Create (js ''V1StGXR8'') (js ''2025-08-01T00:00:00.000Z'')
                     (emptyBody\<lparr>p_title := Some (js ''  Write docs ''),
                        p_category := Some Documentation, p_status := Some ToDo,
                        p_priority := Some Low\<rparr>)] seedTasks) =
     [js '' Fix UI '', js ''Add unit tests'', js ''Fix login redirect bug'',
      js ''Document CLI usage'', js ''Write docs''] \<and>
   list_all (\<lambda>t. trim (title t) \<noteq> [])
     (run [Update (js ''1'') (emptyBody\<lparr>p_title := Some (js '' Fix UI '')\<rparr>),
           Update (js ''2'') (emptyBody\<lparr>p_title := Some (js ''  '')\<rparr>),
           Delete (js ''4''),
           Create (js ''V1StGXR8'') (js ''2025-08-01T00:00:00.000Z'')
             (emptyBody\<lparr>p_title := Some (js ''  Write docs ''),
                p_category := Some Documentation, p_status := Some ToDo,
                p_priority := Some Low\<rparr>)] seedTasks)"
proof -
  let ?rs = "[Update (js ''1'') (emptyBody\<lparr>p_title := Some (js '' Fix UI '')\<rparr>),
              Update (js ''2'') (emptyBody\<lparr>p_title := Some (js ''  '')\<rparr>),
              Delete (js ''4''),
              Create (js ''V1StGXR8'') (js ''2025-08-01T00:00:00.000Z'')
                (emptyBody\<lparr>p_title := Some (js ''  Write docs ''),
                   p_category := Some Documentation, p_status := Some ToDo,
                   p_priority := Some Low\<rparr>)]"
  have m: "map title (run ?rs seedTasks) =
     [js '' Fix UI '', js ''Add unit tests'', js ''Fix login redirect bug'',
      js ''Document CLI usage'', js ''Write docs'']"
    by (simp add: postTask_def patchTask_def deleteTask_def merge_def emptyBody_def
        seedTasks_def js_def Let_def truthy_def trim_def isWhiteSpace_def)
  from m titles_stay_nonblank [of ?rs] show ?thesis
    unfolding list_all_iff by blast
qed

lemma distinct_post:
  "distinct (map id_task tasks) \<Longrightarrow> newId \<notin> id_task ` set tasks \<Longrightarrow>
   distinct (map id_task (snd (postTask newId now body tasks)))"
  by (auto simp: postTask_def Let_def split: option.splits)

lemma id_merge: "id_task (merge task updates) = (case p_id updates of None \<Rightarrow> id_task task | Some v \<Rightarrow> v)"
  by (simp add: merge_def)

lemma distinct_patch:
  assumes "distinct (map id_task tasks)"
    and "case p_id updates of None \<Rightarrow> True | Some v \<Rightarrow> v = i \<or> v \<notin> id_task ` set tasks"
  shows "distinct (map id_task (snd (patchTask i updates tasks)))"
proof (cases "findIndex (\<lambda>t. id_task t = i) tasks")
  case None
  with assms show ?thesis by (simp add: patchTask_def)
next
  case (Some k)
  from findIndex_Some [OF Some] have k: "k < length tasks" "id_task (tasks ! k) = i" by auto
  let ?m = "merge (tasks ! k) updates"
  have "id_task ?m = id_task (tasks ! k) \<or> id_task ?m \<notin> set (map id_task tasks)"
    using assms(2) k(2) by (auto simp: id_merge split: option.splits)
  then have "distinct ((map id_task tasks)[k := id_task ?m])"
  proof
    assume "id_task ?m = id_task (tasks ! k)"
    with k(1) have "(map id_task tasks)[k := id_task ?m] = map id_task tasks"
      by (simp add: list_update_same_conv)
    with assms(1) show ?thesis by simp
  next
    assume "id_task ?m \<notin> set (map id_task tasks)"
    with assms(1) show ?thesis by (simp add: distinct_list_update)
  qed
  then have "distinct (map id_task (tasks[k := ?m]))"
    by (simp add: map_update)
  with Some assms(1) show ?thesis
    by (simp add: patchTask_def Let_def)
qed

lemma distinct_delete:
  assumes "distinct (map id_task tasks)"
  shows "distinct (map id_task (snd (deleteTask i tasks)))"
proof (cases "findIndex (\<lambda>t. id_task t = i) tasks")
  case None
  with assms show ?thesis by (simp add: deleteTask_def)
next
  case (Some k)
  from findIndex_Some [OF Some] have "k < length tasks" by simp
  then have "tasks = take k tasks @ tasks ! k # drop (Suc k) tasks"
    by (simp add: id_take_nth_drop)
  with assms have "distinct (map id_task (take k tasks @ tasks ! k # drop (Suc k) tasks))"
    by simp
  then have "distinct (map id_task (take k tasks @ drop (Suc k) tasks))"
    by auto
  with Some show ?thesis by (simp add: deleteTask_def)
qed

lemma distinct_handle:
  "distinct (map id_task tasks) \<Longrightarrow> idSafe r tasks \<Longrightarrow> distinct (map id_task (snd (handle r tasks)))"
  by (cases r) (simp_all add: distinct_post distinct_patch distinct_delete)

lemma distinct_run:
  "distinct (map id_task tasks) \<Longrightarrow> idSafeRun rs tasks \<Longrightarrow> distinct (map id_task (run rs tasks))"
  by (induction rs arbitrary: tasks) (simp_all add: distinct_handle)

lemma distinct_seed: "distinct (map id_task seedTasks)"
  by (simp add: seedTasks_def js_def)

text \<open>
  C2, as the handlers have it. After any sequence of requests on the seed
  collection in which every Create gets a generated id that no stored task carries
  and every Update supplies no id, or the id of its request, or an id that no stored
  task carries, the stored ids are pairwise distinct.
\<close>

theorem ids_stay_distinct:
  assumes "idSafeRun rs seedTasks"
  shows "distinct (map id_task (run rs seedTasks))"
  using distinct_seed assms by (rule distinct_run)

theorem ids_stay_distinct_witness:
  "idSafeRun [Create (js ''V1StGXR8'') (js ''2025-08-01T00:00:00.000Z'')
                (emptyBody\<lparr>p_title := Some (js ''Write docs''),
                   p_category := Some Documentation, p_status := Some ToDo,
                   p_priority := Some Low\<rparr>),
              Update (js ''1'') (emptyBody\<lparr>p_id := Some (js ''9'')\<rparr>),
              Delete (js ''2'')] seedTasks \<and>
   distinct (map id_task
     (run [Create (js ''V1StGXR8'') (js ''2025-08-01T00:00:00.000Z'')
             (emptyBody\<lparr>p_title := Some (js ''Write docs''),
                p_category := Some Documentation, p_status := Some ToDo,
                p_priority := Some Low\<rparr>),
           Update (js ''1'') (emptyBody\<lparr>p_id := Some (js ''9'')\<rparr>),
           Delete (js ''2'')] seedTasks))"
proof -
  have h: "idSafeRun [Create (js ''V1StGXR8'') (js ''2025-08-01T00:00:00.000Z'')
                (emptyBody\<lparr>p_title := Some (js ''Write docs''),
                   p_category := Some Documentation, p_status := Some ToDo,
                   p_priority := Some Low\<rparr>),
              Update (js ''1'') (emptyBody\<lparr>p_id := Some (js ''9'')\<rparr>),
              Delete (js ''2'')] seedTasks"
    by (simp add: postTask_def patchTask_def merge_def emptyBody_def seedTasks_def js_def
        Let_def truthy_def trim_def isWhiteSpace_def)
  from ids_stay_distinct [OF h] h show ?thesis
    by blast
qed

text \<open>
  C2, as stated, fails after one request: a PATCH on id 1 whose body supplies the
  id 2 is answered 200, and two stored tasks carry the id 2.
\<close>

theorem ids_collide_counterexample:
  "code (fst (patchTask (js ''1'') (emptyBody\<lparr>p_id := Some (js ''2'')\<rparr>) seedTasks)) = 200 \<and>
   map id_task (run [Update (js ''1'') (emptyBody\<lparr>p_id := Some (js ''2'')\<rparr>)] seedTasks) =
     [js ''2'', js ''2'', js ''4'', js ''5'', js ''7''] \<and>
   \<not> distinct (map id_task
     (run [Update (js ''1'') (emptyBody\<lparr>p_id := Some (js ''2'')\<rparr>)] seedTasks))"
  by (simp add: patchTask_def merge_def emptyBody_def seedTasks_def js_def Let_def respond_def)

end
